theory Spec2Isabelle
  imports Complex_Main
begin

section \<open>JavaScript values as the client sees them\<close>

text \<open>
  The client is TypeScript. What comes back from the network is parsed JSON, held in
  variables of type \<^verbatim>\<open>unknown\<close> or cast without a check
  (\<^verbatim>\<open>responseBody as JsonResponse<T>\<close>), and the code inspects it with
  \<^verbatim>\<open>typeof\<close>, \<^verbatim>\<open>Array.isArray\<close>, \<^verbatim>\<open>||\<close> and
  \<^verbatim>\<open>??\<close>. Such values are modelled by \<open>jsval\<close>. An object is the list of its
  own properties, each key once; a number is only ever tested for being zero.
\<close>

datatype jsval =
    Undefined
  | Null
  | Bool bool
  | Num rat
  | Str string
  | Arr "jsval list"
  | Obj "(string \<times> jsval) list"

text \<open>
  What the code can throw or be rejected with. \<open>Error m\<close> is an \<^verbatim>\<open>Error\<close>
  instance with message \<open>m\<close>: \<^verbatim>\<open>new Error(m)\<close> in the source, or a rejection
  reported by the platform's \<^verbatim>\<open>fetch\<close>. \<open>TypeError\<close> is raised by the engine
  itself when a property of \<^verbatim>\<open>null\<close> or \<^verbatim>\<open>undefined\<close> is read or a
  non-function is called; the text of its message is the engine's. \<open>Thrown v\<close> is a
  thrown value that is no \<^verbatim>\<open>Error\<close>.
\<close>

datatype exn = Error string | TypeError | Thrown jsval

text \<open>Truthiness, \<^verbatim>\<open>a || b\<close> and \<^verbatim>\<open>a ?? b\<close>.\<close>

fun truthy :: "jsval \<Rightarrow> bool" where
  "truthy Undefined = False"
| "truthy Null = False"
| "truthy (Bool b) = b"
| "truthy (Num n) = (n \<noteq> 0)"
| "truthy (Str s) = (s \<noteq> [])"
| "truthy (Arr xs) = True"
| "truthy (Obj kvs) = True"

definition js_or :: "jsval \<Rightarrow> jsval \<Rightarrow> jsval" where
  "js_or a b = (if truthy a then a else b)"

definition nullish :: "jsval \<Rightarrow> bool" where
  "nullish v = (v = Undefined \<or> v = Null)"

definition js_coalesce :: "jsval \<Rightarrow> jsval \<Rightarrow> jsval" where
  "js_coalesce a b = (if nullish a then b else a)"

text \<open>
  Reading a property \<^verbatim>\<open>v.k\<close>. On \<^verbatim>\<open>null\<close> and \<^verbatim>\<open>undefined\<close> the
  engine throws. On an object the own property is read, \<^verbatim>\<open>undefined\<close> when there
  is none. The keys the client reads (\<^verbatim>\<open>_id\<close>, \<^verbatim>\<open>id\<close>, \<^verbatim>\<open>name\<close>,
  \<^verbatim>\<open>date\<close>, \<^verbatim>\<open>status\<close>, \<^verbatim>\<open>tasks\<close>, \<^verbatim>\<open>error\<close>) are no
  built-in property of a boolean, number, string or array, so there the read gives
  \<^verbatim>\<open>undefined\<close>.
\<close>

fun own_property :: "jsval \<Rightarrow> string \<Rightarrow> jsval" where
  "own_property (Obj kvs) k = (case map_of kvs k of None \<Rightarrow> Undefined | Some v \<Rightarrow> v)"
| "own_property v k = Undefined"

fun typeof :: "jsval \<Rightarrow> string" where
  "typeof Undefined = ''undefined''"
| "typeof Null = ''object''"
| "typeof (Bool b) = ''boolean''"
| "typeof (Num n) = ''number''"
| "typeof (Str s) = ''string''"
| "typeof (Arr xs) = ''object''"
| "typeof (Obj kvs) = ''object''"

definition get_prop :: "jsval \<Rightarrow> string \<Rightarrow> exn + jsval" where
  "get_prop v k = (if nullish v then Inl TypeError else Inr (own_property v k))"

text \<open>
  A template literal \<^verbatim>\<open>`${n}`\<close> of a non-negative integer is its decimal
  numeral.
\<close>

definition digit_char :: "nat \<Rightarrow> char" where
  "digit_char d = ''0123456789'' ! d"

fun show_nat :: "nat \<Rightarrow> string" where
  "show_nat n = (if n < 10 then [digit_char n] else show_nat (n div 10) @ [digit_char (n mod 10)])"

declare show_nat.simps [simp del]

section \<open>The HTTP client (scripts/database.ts)\<close>

text \<open>
  A request as \<^verbatim>\<open>request\<close> hands it to \<^verbatim>\<open>fetch\<close>: the URL is
  \<^verbatim>\<open>API_BASE_URL\<close> followed by the path, and the query string that
  \<^verbatim>\<open>buildQueryString\<close> appends to the path is kept as the list of its
  parameters (their percent-encoding is \<^verbatim>\<open>URLSearchParams\<close>'s). The body is the
  value given to \<^verbatim>\<open>JSON.stringify\<close>, \<open>None\<close> when the body is
  \<^verbatim>\<open>undefined\<close>.
\<close>

record http_request =
  url :: string
  query :: "(string \<times> string) list"
  http_method :: string
  headers :: "(string \<times> string) list"
  body :: "jsval option"
  credentials :: string

text \<open>
  A response: its status, and what \<^verbatim>\<open>response.json()\<close> gives, \<open>None\<close>
  when it throws (the body is no JSON). \<^verbatim>\<open>response.ok\<close> is a status in
  200..299.
\<close>

record response =
  status :: nat
  json :: "jsval option"

definition ok :: "response \<Rightarrow> bool" where
  "ok r = (200 \<le> status r \<and> status r \<le> 299)"

text \<open>
  The network: \<^verbatim>\<open>fetch\<close> either rejects or resolves with a response. Every
  operation of the client returns its outcome together with the requests it made, in
  order.
\<close>

type_synonym fetch = "http_request \<Rightarrow> exn + response"

definition defaultHeaders :: "(string \<times> string) list" where
  "defaultHeaders = [(''Content-Type'', ''application/json'')]"

definition serializeError :: "response \<Rightarrow> jsval \<Rightarrow> string" where
  "serializeError r b =
     (let defaultMessage = ''Request failed with status '' @ show_nat (status r) in
      if truthy b \<and> typeof b = ''object'' \<and> b \<noteq> Null then
        (case own_property b ''error'' of
           Str message \<Rightarrow> (if length message > 0 then message else defaultMessage)
         | _ \<Rightarrow> defaultMessage)
      else defaultMessage)"

definition buildQueryString :: "(string \<times> string option) list option \<Rightarrow> (string \<times> string) list" where
  "buildQueryString params =
     (case params of
        None \<Rightarrow> []
      | Some ps \<Rightarrow> concat (map (\<lambda>(k, v). case v of None \<Rightarrow> [] | Some s \<Rightarrow> [(k, s)]) ps))"

definition merge_headers :: "(string \<times> string) list \<Rightarrow> (string \<times> string) list \<Rightarrow> (string \<times> string) list" where
  "merge_headers base extra = filter (\<lambda>(k, v). map_of extra k = None) base @ extra"

text \<open>
  \<open>sent\<close> is the request that \<^verbatim>\<open>request\<close> hands to \<^verbatim>\<open>fetch\<close>:
  the default headers overridden by the caller's, credentials included.
\<close>

definition sent :: "string \<Rightarrow> string \<Rightarrow> (string \<times> string) list \<Rightarrow> string \<Rightarrow> jsval option
     \<Rightarrow> (string \<times> string) list \<Rightarrow> http_request" where
  "sent API_BASE_URL path qs m b hs =
     \<lparr>url = API_BASE_URL @ path, query = qs, http_method = m,
      headers = merge_headers defaultHeaders hs, body = b, credentials = ''include''\<rparr>"

definition request ::
  "string \<Rightarrow> fetch \<Rightarrow> string \<Rightarrow> (string \<times> string) list \<Rightarrow> string \<Rightarrow> jsval option
     \<Rightarrow> (string \<times> string) list \<Rightarrow> (exn + jsval) \<times> http_request list" where
  "request API_BASE_URL fetch path qs m b hs =
     (let req = sent API_BASE_URL path qs m b hs in
      case fetch req of
        Inl e \<Rightarrow> (Inl e, [req])
      | Inr r \<Rightarrow>
          (let responseBody = (case json r of None \<Rightarrow> Null | Some v \<Rightarrow> v) in
           if \<not> ok r then (Inl (Error (serializeError r responseBody)), [req])
           else (Inr responseBody, [req])))"

definition get ::
  "string \<Rightarrow> fetch \<Rightarrow> string \<Rightarrow> (string \<times> string option) list option
     \<Rightarrow> (exn + jsval) \<times> http_request list" where
  "get API_BASE_URL fetch path params =
     request API_BASE_URL fetch path (buildQueryString params) ''GET'' None []"

definition post :: "string \<Rightarrow> fetch \<Rightarrow> string \<Rightarrow> jsval \<Rightarrow> (exn + jsval) \<times> http_request list" where
  "post API_BASE_URL fetch path b = request API_BASE_URL fetch path [] ''POST'' (Some b) []"

section \<open>The domain gateway (scripts/database.ts)\<close>

text \<open>
  Each operation is \<^verbatim>\<open>get\<close> or \<^verbatim>\<open>post\<close> on one path. The value a
  gateway promise resolves with is the parsed body as it came: the type argument of
  \<^verbatim>\<open>request<T>\<close> is a cast and checks nothing.
\<close>

definition getUserTasks :: "string \<Rightarrow> fetch \<Rightarrow> string \<Rightarrow> (exn + jsval) \<times> http_request list" where
  "getUserTasks API_BASE_URL fetch username =
     get API_BASE_URL fetch ''/get-user-tasks'' (Some [(''username'', Some username)])"

definition getEvents :: "string \<Rightarrow> fetch \<Rightarrow> string \<Rightarrow> (exn + jsval) \<times> http_request list" where
  "getEvents API_BASE_URL fetch username =
     get API_BASE_URL fetch ''/get-events'' (Some [(''username'', Some username)])"

text \<open>
  \<^verbatim>\<open>filteredTasks.filter((task) => task.status === 'completed')\<close>: the callback runs
  on every element in order and throws on an element that is \<^verbatim>\<open>null\<close>.
\<close>

fun completedTasks :: "jsval list \<Rightarrow> exn + jsval list" where
  "completedTasks [] = Inr []"
| "completedTasks (task # rest) =
     (case get_prop task ''status'' of
        Inl e \<Rightarrow> Inl e
      | Inr s \<Rightarrow>
          (case completedTasks rest of
             Inl e \<Rightarrow> Inl e
           | Inr kept \<Rightarrow> Inr (if s = Str ''completed'' then task # kept else kept)))"

text \<open>
  The callback that \<^verbatim>\<open>getFinishedTasks\<close> chains on \<^verbatim>\<open>getUserTasks\<close>:
  \<^verbatim>\<open>({ tasks }) => { const filteredTasks = tasks ?? []; ... }\<close>. Destructuring
  \<^verbatim>\<open>null\<close> throws; \<^verbatim>\<open>.filter\<close> exists on arrays only, so calling it on
  anything else throws.
\<close>

definition finished_of :: "jsval \<Rightarrow> exn + jsval" where
  "finished_of resolved =
     (case get_prop resolved ''tasks'' of
        Inl e \<Rightarrow> Inl e
      | Inr tasks \<Rightarrow>
          (case js_coalesce tasks (Arr []) of
             Arr filteredTasks \<Rightarrow>
               (case completedTasks filteredTasks of
                  Inl e \<Rightarrow> Inl e
                | Inr completed \<Rightarrow> Inr (Obj [(''success'', Bool True), (''tasks'', Arr completed)]))
           | _ \<Rightarrow> Inl TypeError))"

definition getFinishedTasks :: "string \<Rightarrow> fetch \<Rightarrow> string \<Rightarrow> (exn + jsval) \<times> http_request list" where
  "getFinishedTasks API_BASE_URL fetch username =
     (case getUserTasks API_BASE_URL fetch username of
        (Inl e, reqs) \<Rightarrow> (Inl e, reqs)
      | (Inr resolved, reqs) \<Rightarrow> (finished_of resolved, reqs))"

text \<open>
  The declared type of what \<^verbatim>\<open>getUserTasks\<close> resolves with is
  \<^verbatim>\<open>{ success: boolean; tasks?: TaskRecord[]; error?: string }\<close>. Of it the
  callback reads the task list: \<open>listed resolved ts\<close> holds when \<open>resolved\<close> is an
  object whose \<^verbatim>\<open>tasks\<close> is the array \<open>ts\<close> of values other than
  \<^verbatim>\<open>null\<close>, or is missing or \<^verbatim>\<open>null\<close> and \<open>ts\<close> is empty.
\<close>

definition listed :: "jsval \<Rightarrow> jsval list \<Rightarrow> bool" where
  "listed resolved ts =
     (case resolved of
        Obj kvs \<Rightarrow>
          (case map_of kvs ''tasks'' of
             None \<Rightarrow> ts = []
           | Some Null \<Rightarrow> ts = []
           | Some (Arr xs) \<Rightarrow> ts = xs \<and> list_all (\<lambda>t. t \<noteq> Null \<and> t \<noteq> Undefined) xs
           | Some _ \<Rightarrow> False)
      | _ \<Rightarrow> False)"

section \<open>The event list of the home screens\<close>

text \<open>
  The user profile is \<^verbatim>\<open>Record<string, unknown> | null\<close> (user-context.ts):
  \<open>None\<close> is \<^verbatim>\<open>null\<close>, and \<open>user_field user k\<close> is \<^verbatim>\<open>user?.k\<close>.
\<close>

type_synonym User = "(string \<times> jsval) list"

definition user_field :: "User option \<Rightarrow> string \<Rightarrow> jsval" where
  "user_field user k = (case user of None \<Rightarrow> Undefined | Some u \<Rightarrow> own_property (Obj u) k)"

text \<open>
  \<^verbatim>\<open>EventRecord\<close> of database.ts; every field is optional. \<open>er_uid\<close> is the field
  \<^verbatim>\<open>_id\<close>, \<open>er_id\<close> the field \<^verbatim>\<open>id\<close>.
\<close>

record EventRecord =
  er_uid :: "string option"
  er_id :: "string option"
  er_name :: "string option"
  er_coverImage :: "string option"
  er_date :: "string option"
  er_tasks :: "string list option"

definition of_optional :: "string option \<Rightarrow> jsval" where
  "of_optional s = (case s of None \<Rightarrow> Undefined | Some t \<Rightarrow> Str t)"

text \<open>
  An entry of the displayed list, \<^verbatim>\<open>{ id, name, date }\<close>. The code declares the
  fields as strings and fills them with casts, so each holds whatever value the
  expression gives, \<^verbatim>\<open>undefined\<close> included.
\<close>

record display_event =
  d_id :: jsval
  d_name :: jsval
  d_date :: jsval

text \<open>\<^verbatim>\<open>Array.isArray(user?.events) ? user.events : []\<close> (index.tsx lines 32 and 691).\<close>

definition userEvents :: "User option \<Rightarrow> jsval list" where
  "userEvents user = (case user_field user ''events'' of Arr xs \<Rightarrow> xs | _ \<Rightarrow> [])"

text \<open>
  \<^verbatim>\<open>xs.map((e, i) => ...)\<close> with a callback that may throw: the first exception
  ends the map.
\<close>

fun map_indexed :: "(nat \<Rightarrow> 'a \<Rightarrow> exn + 'b) \<Rightarrow> nat \<Rightarrow> 'a list \<Rightarrow> exn + 'b list" where
  "map_indexed f i [] = Inr []"
| "map_indexed f i (x # xs) =
     (case f i x of
        Inl e \<Rightarrow> Inl e
      | Inr y \<Rightarrow> (case map_indexed f (Suc i) xs of Inl e \<Rightarrow> Inl e | Inr ys \<Rightarrow> Inr (y # ys)))"

text \<open>
  The callback on an entry of \<^verbatim>\<open>user.events\<close>, the same in both versions of the
  screen (index.tsx lines 88-99 and 779-790). A string is an event id. Anything else is
  cast to an object and its \<^verbatim>\<open>_id\<close>, \<^verbatim>\<open>id\<close>, \<^verbatim>\<open>name\<close> and
  \<^verbatim>\<open>date\<close> are read, which throws on \<^verbatim>\<open>null\<close>.
\<close>

definition embedded_event :: "nat \<Rightarrow> jsval \<Rightarrow> exn + display_event" where
  "embedded_event i e =
     (case e of
        Str s \<Rightarrow> Inr \<lparr>d_id = Str s, d_name = Str (''Event '' @ show_nat (i + 1)), d_date = Undefined\<rparr>
      | _ \<Rightarrow>
          (if nullish e then Inl TypeError
           else Inr \<lparr>d_id = js_or (js_or (own_property e ''_id'') (own_property e ''id''))
                                (Str (''event-'' @ show_nat i)),
                     d_name = js_or (own_property e ''name'') (Str (''Event '' @ show_nat (i + 1))),
                     d_date = own_property e ''date''\<rparr>))"

text \<open>
  The callback on a fetched record. The first version of the screen (index.tsx lines
  83-87) has \<^verbatim>\<open>id: e._id || e.id, name: e.name\<close>; the second (lines 774-778) has
  \<^verbatim>\<open>id: e._id || e.id || `event-${i}`, name: e.name || `Event ${i + 1}`\<close>.
\<close>

definition fetched_event_a :: "nat \<Rightarrow> EventRecord \<Rightarrow> display_event" where
  "fetched_event_a i e =
     \<lparr>d_id = js_or (of_optional (er_uid e)) (of_optional (er_id e)),
      d_name = of_optional (er_name e),
      d_date = of_optional (er_date e)\<rparr>"

definition fetched_event_b :: "nat \<Rightarrow> EventRecord \<Rightarrow> display_event" where
  "fetched_event_b i e =
     \<lparr>d_id = js_or (js_or (of_optional (er_uid e)) (of_optional (er_id e)))
                  (Str (''event-'' @ show_nat i)),
      d_name = js_or (of_optional (er_name e)) (Str (''Event '' @ show_nat (i + 1))),
      d_date = of_optional (er_date e)\<rparr>"

text \<open>
  \<^verbatim>\<open>events\<close>, the displayed list: \<open>events_a\<close> in the first version of the screen
  (index.tsx lines 81-99), \<open>events_b\<close> in the second (lines 772-790).
\<close>

definition events_a :: "EventRecord list \<Rightarrow> jsval list \<Rightarrow> exn + display_event list" where
  "events_a fetchedEvents embedded =
     (if length fetchedEvents > 0
      then Inr (map (\<lambda>(i, e). fetched_event_a i e) (enumerate 0 fetchedEvents))
      else map_indexed embedded_event 0 embedded)"

definition events_b :: "EventRecord list \<Rightarrow> jsval list \<Rightarrow> exn + display_event list" where
  "events_b fetchedEvents embedded =
     (if length fetchedEvents > 0
      then Inr (map (\<lambda>(i, e). fetched_event_b i e) (enumerate 0 fetchedEvents))
      else map_indexed embedded_event 0 embedded)"

text \<open>
  \<^verbatim>\<open>eventEntries\<close> of the earliest home screen (part_001 lines 9-21), entries
  \<^verbatim>\<open>{ id, label }\<close>. \<open>stringify\<close> is the platform's \<^verbatim>\<open>JSON.stringify\<close>,
  \<open>None\<close> when it returns \<^verbatim>\<open>undefined\<close>.
\<close>

record list_entry =
  le_id :: string
  le_label :: string

definition eventEntries :: "(jsval \<Rightarrow> string option) \<Rightarrow> User option \<Rightarrow> list_entry list" where
  "eventEntries stringify user =
     (let vals = (case user_field user ''events'' of Arr xs \<Rightarrow> xs | _ \<Rightarrow> []) in
      map (\<lambda>(index, v).
             let stringValue =
                   (case v of
                      Str s \<Rightarrow> s
                    | _ \<Rightarrow> (case stringify (js_coalesce v (Str [])) of
                              Some s \<Rightarrow> s
                            | None \<Rightarrow> ''Event '' @ show_nat (index + 1)))
             in \<lparr>le_id = (case v of Str s \<Rightarrow> s | _ \<Rightarrow> ''event-'' @ show_nat index),
                 le_label = stringValue\<rparr>)
          (enumerate 0 vals))"

section \<open>The screens: state, effects and form handlers\<close>

text \<open>
  On the screens the gateway results are used at their declared types. Every response
  type of database.ts is \<^verbatim>\<open>{ success: boolean; <payload>?: T; error?: string }\<close>,
  with the payload named \<^verbatim>\<open>events\<close>, \<^verbatim>\<open>tasks\<close>, \<^verbatim>\<open>task\<close> or
  \<^verbatim>\<open>connection\<close>. A gateway promise settles in one of three ways: it rejects,
  it resolves with \<^verbatim>\<open>null\<close> (a 2xx response that was no JSON), or it resolves
  with such a response.
\<close>

record 'a envelope =
  success :: bool
  payload :: "'a option"
  error :: "string option"

type_synonym 'a settled = "exn + 'a envelope option"

text \<open>
  \<^verbatim>\<open>err instanceof Error ? err.message : fallback\<close>. The message of a
  \<^verbatim>\<open>TypeError\<close> raised by the engine is the engine's text \<open>engine_message\<close>.
\<close>

fun catch_message :: "string \<Rightarrow> string \<Rightarrow> exn \<Rightarrow> string" where
  "catch_message engine_message fallback (Error m) = m"
| "catch_message engine_message fallback TypeError = engine_message"
| "catch_message engine_message fallback (Thrown v) = fallback"

text \<open>
  \<^verbatim>\<open>String.prototype.trim\<close> removes white space and line terminators at both
  ends. A \<open>char\<close> is a code unit below 256; of those, tab, line feed, vertical tab,
  form feed, carriage return, space and the no-break space are removed.
\<close>

definition is_ws :: "char \<Rightarrow> bool" where
  "is_ws c = (c \<in> set [CHR 0x09, CHR 0x0A, CHR 0x0B, CHR 0x0C, CHR 0x0D, CHR 0x20, CHR 0xA0])"

definition trim :: "string \<Rightarrow> string" where
  "trim s = rev (dropWhile is_ws (rev (dropWhile is_ws s)))"

text \<open>\<^verbatim>\<open>error || fallback\<close> on an optional string.\<close>

definition or_else :: "string option \<Rightarrow> string \<Rightarrow> string" where
  "or_else s fallback = (case s of None \<Rightarrow> fallback | Some t \<Rightarrow> if t = [] then fallback else t)"

datatype TaskType = Connect | Meeting | Application | Other

record TaskRecord =
  tr_uid :: "string option"
  tr_id :: "string option"
  tr_info :: "string option"
  tr_type :: "string option"
  tr_status :: "string option"
  tr_dateTime :: "string option"
  tr_eventId :: "string option"

text \<open>
  \<^verbatim>\<open>TaskEntry\<close> of the first home screen, \<^verbatim>\<open>{ id, label, type, eventName }\<close>.
\<close>

record TaskEntry =
  te_id :: jsval
  te_label :: string
  te_type :: TaskType
  te_eventName :: jsval

text \<open>The gateway operations a screen invokes, with their arguments.\<close>

datatype gateway_call =
    CreateTask string string TaskType "string option"
  | AddConnection string string string "string option" "string option"
  | GetConnections string
  | GetEvents string
  | GetUserTasks string
  | GetFinishedTasks string

text \<open>
  The \<^verbatim>\<open>useState\<close> cells. Both versions of the home screen and both versions of
  the people screen hold \<^verbatim>\<open>modalVisible\<close> and \<^verbatim>\<open>formError\<close>; both home
  screens hold the cells of \<open>home_common\<close>. \<open>home_a\<close> is the first home screen
  (index.tsx line 27), \<open>home_b\<close> the second (line 685), of which the cells of the task
  details dialog, which nothing modelled here reads or writes, are left out.
\<close>

record modal_form =
  modalVisible :: bool
  formError :: "string option"

record home_common = modal_form +
  fetchedEvents :: "EventRecord list"
  loadingEvents :: bool
  taskInfo :: string
  taskType :: TaskType
  isSubmitting :: bool

record home_a = home_common +
  createdTasks :: "TaskEntry list"
  selectedEventId :: "string option"
  isDropdownOpen :: bool

record home_b = home_common +
  tasks :: "TaskRecord list"
  loadingTasks :: bool
  finishedCount :: nat

record people_common = modal_form +
  connections :: "jsval list"
  loading :: bool
  loadError :: "string option"
  connectionName :: string
  connectionNote :: string
  isSubmittingConnection :: bool

record people_a = people_common +
  connectionEmail :: string
  connectionPhone :: string

subsection \<open>The events effect (index.tsx lines 51-78 and 713-740)\<close>

text \<open>
  One run of the effect with a username starts \<^verbatim>\<open>getEvents\<close> and owns a variable
  \<^verbatim>\<open>cancelled\<close>, set by the cleanup. \<open>getEvents_settled cancelled outcome\<close> is
  what \<^verbatim>\<open>.then\<close>, \<^verbatim>\<open>.catch\<close> and \<^verbatim>\<open>.finally\<close> do to the state
  when the promise settles, given the value \<^verbatim>\<open>cancelled\<close> has by then.
\<close>

definition getEvents_settled ::
  "bool \<Rightarrow> EventRecord list settled \<Rightarrow> 'z home_common_scheme \<Rightarrow> 'z home_common_scheme" where
  "getEvents_settled cancelled outcome st =
     (if cancelled then st
      else (case outcome of
              Inr (Some response) \<Rightarrow>
                (case payload response of
                   Some evs \<Rightarrow>
                     (if success response then st\<lparr>fetchedEvents := evs, loadingEvents := False\<rparr>
                      else st\<lparr>loadingEvents := False\<rparr>)
                 | None \<Rightarrow> st\<lparr>loadingEvents := False\<rparr>)
            | _ \<Rightarrow> st\<lparr>loadingEvents := False\<rparr>))"

subsection \<open>Loading tasks on the second home screen (index.tsx lines 742-769)\<close>

text \<open>
  \<^verbatim>\<open>loadTasks\<close> sets \<^verbatim>\<open>loadingTasks\<close>, starts \<^verbatim>\<open>getUserTasks\<close> and
  \<^verbatim>\<open>getFinishedTasks\<close> and awaits both. \<^verbatim>\<open>Promise.all\<close> rejects when one
  of them rejects; otherwise it gives the two responses, the first possibly
  \<^verbatim>\<open>null\<close>. \<open>loadTasks_settled\<close> is the rest of \<^verbatim>\<open>loadTasks\<close> after the
  \<^verbatim>\<open>await\<close>. It reads no cancellation flag: the function has none.
\<close>

type_synonym tasks_loaded = "exn + (TaskRecord list envelope option \<times> TaskRecord list envelope)"

definition loadTasks_started :: "home_b \<Rightarrow> home_b" where
  "loadTasks_started st = st\<lparr>loadingTasks := True\<rparr>"

definition loadTasks_settled :: "tasks_loaded \<Rightarrow> home_b \<Rightarrow> home_b" where
  "loadTasks_settled outcome st =
     (case outcome of
        Inr (Some tasksResponse, finishedResponse) \<Rightarrow>
          (let st1 = (case payload tasksResponse of
                        Some ts \<Rightarrow> if success tasksResponse then st\<lparr>tasks := ts\<rparr> else st
                      | None \<Rightarrow> st);
               st2 = (case payload finishedResponse of
                        Some fs \<Rightarrow> if success finishedResponse then st1\<lparr>finishedCount := length fs\<rparr> else st1
                      | None \<Rightarrow> st1)
           in st2\<lparr>loadingTasks := False\<rparr>)
      | _ \<Rightarrow> st\<lparr>loadingTasks := False\<rparr>)"

subsection \<open>The second home screen as a transition system\<close>

text \<open>
  React runs an effect again when a dependency changed, after running the cleanup the
  previous run returned. The screen with its effects in flight: \<open>cancelled_runs\<close> are the
  runs of the events effect whose \<^verbatim>\<open>cancelled\<close> is true, \<open>cleanup\<close> the run whose
  cleanup React holds, \<open>events_in_flight\<close> and \<open>loads_in_flight\<close> the pending
  \<^verbatim>\<open>getEvents\<close> and \<^verbatim>\<open>loadTasks\<close> calls with the username each was
  started for.
\<close>

record screen_b =
  username :: "string option"
  cells :: home_b
  cancelled_runs :: "nat list"
  cleanup :: "nat option"
  runs :: nat
  events_in_flight :: "(nat \<times> string) list"
  loads :: nat
  loads_in_flight :: "(nat \<times> string) list"

datatype event_b =
    UsernameBecomes "string option"
  | GetEventsSettles nat "EventRecord list settled"
  | LoadTasksSettles nat tasks_loaded

definition absent :: "string option \<Rightarrow> bool" where
  "absent u = (case u of None \<Rightarrow> True | Some s \<Rightarrow> s = [])"

definition events_effect :: "string option \<Rightarrow> screen_b \<Rightarrow> screen_b" where
  "events_effect u s =
     (let s1 = (case cleanup s of
                  None \<Rightarrow> s
                | Some r \<Rightarrow> s\<lparr>cancelled_runs := r # cancelled_runs s\<rparr>)
      in case u of
           None \<Rightarrow> s1\<lparr>cells := (cells s1)\<lparr>fetchedEvents := []\<rparr>, cleanup := None\<rparr>
         | Some name \<Rightarrow>
             (if name = [] then s1\<lparr>cells := (cells s1)\<lparr>fetchedEvents := []\<rparr>, cleanup := None\<rparr>
              else s1\<lparr>cells := (cells s1)\<lparr>loadingEvents := True\<rparr>,
                      cleanup := Some (runs s1),
                      events_in_flight := events_in_flight s1 @ [(runs s1, name)],
                      runs := Suc (runs s1)\<rparr>))"

definition tasks_effect :: "string option \<Rightarrow> screen_b \<Rightarrow> screen_b" where
  "tasks_effect u s =
     (case u of
        None \<Rightarrow> s\<lparr>cells := (cells s)\<lparr>tasks := [], finishedCount := 0\<rparr>\<rparr>
      | Some name \<Rightarrow>
          (if name = [] then s\<lparr>cells := (cells s)\<lparr>tasks := [], finishedCount := 0\<rparr>\<rparr>
           else s\<lparr>cells := loadTasks_started (cells s),
                   loads_in_flight := loads_in_flight s @ [(loads s, name)],
                   loads := Suc (loads s)\<rparr>))"

fun step_b :: "screen_b \<Rightarrow> event_b \<Rightarrow> screen_b" where
  "step_b s (UsernameBecomes u) =
     (if u = username s then s
      else tasks_effect u (events_effect u (s\<lparr>username := u\<rparr>)))"
| "step_b s (GetEventsSettles r outcome) =
     (if r \<in> fst ` set (events_in_flight s)
      then s\<lparr>cells := getEvents_settled (r \<in> set (cancelled_runs s)) outcome (cells s),
              events_in_flight := filter (\<lambda>(k, name). k \<noteq> r) (events_in_flight s)\<rparr>
      else s)"
| "step_b s (LoadTasksSettles k outcome) =
     (if k \<in> fst ` set (loads_in_flight s)
      then s\<lparr>cells := loadTasks_settled outcome (cells s),
              loads_in_flight := filter (\<lambda>(j, name). j \<noteq> k) (loads_in_flight s)\<rparr>
      else s)"

definition run_b :: "screen_b \<Rightarrow> event_b list \<Rightarrow> screen_b" where
  "run_b s evs = foldl step_b s evs"

text \<open>The screen as mounted with no user: every cell at its initial value.\<close>

definition mounted_b :: screen_b where
  "mounted_b =
     \<lparr>username = None,
      cells = \<lparr>modalVisible = False, formError = None, fetchedEvents = [], loadingEvents = False,
               taskInfo = [], taskType = Connect, isSubmitting = False,
               tasks = [], loadingTasks = False, finishedCount = 0\<rparr>,
      cancelled_runs = [], cleanup = None, runs = 0, events_in_flight = [],
      loads = 0, loads_in_flight = []\<rparr>"

text \<open>
  Every \<^verbatim>\<open>getEvents\<close> call in flight belongs either to a run that was cancelled
  or to the run whose cleanup React holds, started for the present username.
\<close>

definition events_tracked :: "screen_b \<Rightarrow> bool" where
  "events_tracked s =
     list_all (\<lambda>(r, name). r \<in> set (cancelled_runs s) \<or> (cleanup s = Some r \<and> username s = Some name))
       (events_in_flight s)"

subsection \<open>Creating a task\<close>

text \<open>
  A form handler runs to its \<^verbatim>\<open>await\<close>, and on once the awaited promise has
  settled. It is modelled as one function of the state it was called in and of how the
  gateway call settles if it is made; the result is the state after the handler's
  writes, and the gateway operations it invoked, in order.

  \<^verbatim>\<open>getEventName\<close> (index.tsx lines 102-105) looks an id up in the displayed
  events.
\<close>

definition getEventName :: "display_event list \<Rightarrow> string \<Rightarrow> jsval" where
  "getEventName evs eventId =
     (case find (\<lambda>e. d_id e = Str eventId) evs of
        None \<Rightarrow> Str ''Unknown Event''
      | Some event \<Rightarrow> js_or (d_name event) (Str ''Unknown Event''))"

definition handleCloseModal_a :: "home_a \<Rightarrow> home_a" where
  "handleCloseModal_a st = st\<lparr>modalVisible := False, isDropdownOpen := False\<rparr>"

text \<open>
  \<^verbatim>\<open>handleCreateTask\<close> of the first home screen (index.tsx lines 124-165).
  \<open>now\<close> is \<^verbatim>\<open>Date.now()\<close>, \<open>evs\<close> the displayed events of the render the
  handler belongs to.
\<close>

definition handleCreateTask_a ::
  "string \<Rightarrow> nat \<Rightarrow> display_event list \<Rightarrow> string option \<Rightarrow> User settled \<Rightarrow> home_a
     \<Rightarrow> home_a \<times> gateway_call list" where
  "handleCreateTask_a engine_message now evs user_name created st =
     (case user_name of
        None \<Rightarrow> (st\<lparr>formError := Some ''User not available''\<rparr>, [])
      | Some name \<Rightarrow>
          (if name = [] then (st\<lparr>formError := Some ''User not available''\<rparr>, [])
           else
             (let trimmedInfo = trim (taskInfo st) in
              if trimmedInfo = [] then (st\<lparr>formError := Some ''Task info is required''\<rparr>, [])
              else
                (let st1 = st\<lparr>isSubmitting := True, formError := None\<rparr>;
                     invoked = [CreateTask name trimmedInfo (taskType st) (selectedEventId st)]
                 in case created of
                      Inl e \<Rightarrow>
                        (st1\<lparr>formError := Some (catch_message engine_message ''Failed to create task'' e),
                             isSubmitting := False\<rparr>, invoked)
                    | Inr None \<Rightarrow>
                        (st1\<lparr>formError := Some engine_message, isSubmitting := False\<rparr>, invoked)
                    | Inr (Some response) \<Rightarrow>
                        (case (if success response then payload response else None) of
                           Some task \<Rightarrow>
                             (let newTask =
                                    \<lparr>te_id = js_or (js_or (own_property (Obj task) ''_id'')
                                                          (own_property (Obj task) ''id''))
                                                   (Str (''task-'' @ show_nat now)),
                                     te_label = trimmedInfo,
                                     te_type = taskType st,
                                     te_eventName =
                                       (case selectedEventId st of
                                          None \<Rightarrow> Undefined
                                        | Some eventId \<Rightarrow>
                                            if eventId = [] then Undefined
                                            else getEventName evs eventId)\<rparr>
                              in ((handleCloseModal_a (st1\<lparr>createdTasks := newTask # createdTasks st1\<rparr>))
                                    \<lparr>isSubmitting := False\<rparr>, invoked))
                         | None \<Rightarrow>
                             (st1\<lparr>formError := Some (or_else (error response) ''Failed to create task''),
                                  isSubmitting := False\<rparr>, invoked))))))"

text \<open>
  \<^verbatim>\<open>handleCreateTask\<close> of the second home screen (index.tsx lines 851-884). On
  success it closes the modal and awaits \<^verbatim>\<open>loadTasks\<close>; \<open>loaded\<close> is how the
  two requests of that \<^verbatim>\<open>loadTasks\<close> settle.
\<close>

definition handleCreateTask_b ::
  "string \<Rightarrow> string option \<Rightarrow> User settled \<Rightarrow> tasks_loaded \<Rightarrow> home_b
     \<Rightarrow> home_b \<times> gateway_call list" where
  "handleCreateTask_b engine_message user_name created loaded st =
     (case user_name of
        None \<Rightarrow> (st\<lparr>formError := Some ''User not available''\<rparr>, [])
      | Some name \<Rightarrow>
          (if name = [] then (st\<lparr>formError := Some ''User not available''\<rparr>, [])
           else
             (let trimmedInfo = trim (taskInfo st) in
              if trimmedInfo = [] then (st\<lparr>formError := Some ''Task info is required''\<rparr>, [])
              else
                (let st1 = st\<lparr>isSubmitting := True, formError := None\<rparr>;
                     invoked = [CreateTask name trimmedInfo (taskType st) None]
                 in case created of
                      Inl e \<Rightarrow>
                        (st1\<lparr>formError := Some (catch_message engine_message ''Failed to create task'' e),
                             isSubmitting := False\<rparr>, invoked)
                    | Inr None \<Rightarrow>
                        (st1\<lparr>formError := Some engine_message, isSubmitting := False\<rparr>, invoked)
                    | Inr (Some response) \<Rightarrow>
                        (if success response
                         then ((loadTasks_settled loaded (loadTasks_started (st1\<lparr>modalVisible := False\<rparr>)))
                                 \<lparr>isSubmitting := False\<rparr>,
                               invoked @ [GetUserTasks name, GetFinishedTasks name])
                         else (st1\<lparr>formError := Some (or_else (error response) ''Failed to create task''),
                                   isSubmitting := False\<rparr>, invoked))))))"

subsection \<open>Adding a connection (people.tsx)\<close>

text \<open>
  On the people screens \<^verbatim>\<open>username\<close> is a string, empty when the profile has
  none. \<^verbatim>\<open>loadConnections\<close> is called without \<^verbatim>\<open>await\<close>: it sets
  \<^verbatim>\<open>loading\<close>, clears the load error and starts \<^verbatim>\<open>getConnections\<close>, whose
  settling is a later event. \<open>handleCreateConnection_a\<close> is the first people screen
  (people.tsx lines 87-128), \<open>handleCreateConnection_b\<close> the second (lines 528-565),
  whose form has no email and phone cells.
\<close>

definition loadConnections_started :: "'z people_common_scheme \<Rightarrow> 'z people_common_scheme" where
  "loadConnections_started st = st\<lparr>loading := True, loadError := None\<rparr>"

definition handleDismissModal_a :: "people_a \<Rightarrow> people_a" where
  "handleDismissModal_a st =
     st\<lparr>modalVisible := False, formError := None,
        connectionName := [], connectionNote := [], connectionEmail := [], connectionPhone := [],
        isSubmittingConnection := False\<rparr>"

definition handleDismissModal_b :: "people_common \<Rightarrow> people_common" where
  "handleDismissModal_b st =
     st\<lparr>modalVisible := False, formError := None,
        connectionName := [], connectionNote := [],
        isSubmittingConnection := False\<rparr>"

definition handleCreateConnection_a ::
  "string \<Rightarrow> string \<Rightarrow> jsval settled \<Rightarrow> people_a \<Rightarrow> people_a \<times> gateway_call list" where
  "handleCreateConnection_a engine_message user_name added st =
     (if user_name = [] then (st\<lparr>formError := Some ''Current user is unavailable''\<rparr>, [])
      else
        (let trimmedName = trim (connectionName st);
             trimmedNote = trim (connectionNote st)
         in if trimmedName = [] \<or> trimmedNote = []
            then (st\<lparr>formError := Some ''Name and note are required''\<rparr>, [])
            else
              (let st1 = st\<lparr>isSubmittingConnection := True, formError := None\<rparr>;
                   invoked = [AddConnection user_name trimmedName trimmedNote
                                (if connectionEmail st = [] then None else Some (trim (connectionEmail st)))
                                (if connectionPhone st = [] then None else Some (trim (connectionPhone st)))]
               in case added of
                    Inl e \<Rightarrow>
                      (st1\<lparr>formError := Some (catch_message engine_message ''Unable to add connection'' e),
                           isSubmittingConnection := False\<rparr>, invoked)
                  | Inr response \<Rightarrow>
                      ((loadConnections_started (handleDismissModal_a st1))
                          \<lparr>isSubmittingConnection := False\<rparr>,
                       invoked @ [GetConnections user_name]))))"

definition handleCreateConnection_b ::
  "string \<Rightarrow> string \<Rightarrow> jsval settled \<Rightarrow> people_common \<Rightarrow> people_common \<times> gateway_call list" where
  "handleCreateConnection_b engine_message user_name added st =
     (if user_name = [] then (st\<lparr>formError := Some ''Current user is unavailable''\<rparr>, [])
      else
        (let trimmedName = trim (connectionName st);
             trimmedNote = trim (connectionNote st)
         in if trimmedName = [] \<or> trimmedNote = []
            then (st\<lparr>formError := Some ''Name and note are required''\<rparr>, [])
            else
              (let st1 = st\<lparr>isSubmittingConnection := True, formError := None\<rparr>;
                   invoked = [AddConnection user_name trimmedName trimmedNote None None]
               in case added of
                    Inl e \<Rightarrow>
                      (st1\<lparr>formError := Some (catch_message engine_message ''Unable to add connection'' e),
                           isSubmittingConnection := False\<rparr>, invoked)
                  | Inr response \<Rightarrow>
                      ((loadConnections_started (handleDismissModal_b st1))
                          \<lparr>isSubmittingConnection := False\<rparr>,
                       invoked @ [GetConnections user_name]))))"

section \<open>Properties of the HTTP client\<close>

lemma show_nat_digit: "n < 10 \<Longrightarrow> show_nat n = [digit_char n]"
  by (simp add: show_nat.simps)

lemma request_unfold:
  "request base fetch path qs m b hs =
     (case fetch (sent base path qs m b hs) of
        Inl e \<Rightarrow> (Inl e, [sent base path qs m b hs])
      | Inr r \<Rightarrow>
          (if ok r then (Inr (case json r of None \<Rightarrow> Null | Some v \<Rightarrow> v), [sent base path qs m b hs])
           else (Inl (Error (serializeError r (case json r of None \<Rightarrow> Null | Some v \<Rightarrow> v))),
                 [sent base path qs m b hs])))"
  by (simp add: request_def Let_def split: sum.splits)

text \<open>
  C3. A response with a non-2xx status makes \<^verbatim>\<open>request\<close> fail with an
  \<^verbatim>\<open>Error\<close>. Its message is the \<^verbatim>\<open>error\<close> field of the parsed body
  when that body is a JSON object whose \<^verbatim>\<open>error\<close> field is a non-empty
  string; in every other case, a body that is no JSON included, it is
  \<^verbatim>\<open>Request failed with status <code>\<close> with the status in decimal.
\<close>

theorem request_non_2xx_message:
  assumes "fetch (sent base path qs m b hs) = Inr r" and "\<not> ok r"
  shows "(\<forall>kvs msg. json r = Some (Obj kvs) \<and> map_of kvs ''error'' = Some (Str msg) \<and> msg \<noteq> []
            \<longrightarrow> fst (request base fetch path qs m b hs) = Inl (Error msg))
       \<and> ((\<nexists>kvs msg. json r = Some (Obj kvs) \<and> map_of kvs ''error'' = Some (Str msg) \<and> msg \<noteq> [])
            \<longrightarrow> fst (request base fetch path qs m b hs)
                  = Inl (Error (''Request failed with status '' @ show_nat (status r))))
       \<and> (json r = None
            \<longrightarrow> fst (request base fetch path qs m b hs)
                  = Inl (Error (''Request failed with status '' @ show_nat (status r))))"
proof -
  let ?generic = "''Request failed with status '' @ show_nat (status r)"
  have failed: "fst (request base fetch path qs m b hs)
      = Inl (Error (serializeError r (case json r of None \<Rightarrow> Null | Some v \<Rightarrow> v)))"
    using assms by (simp add: request_unfold)
  have named: "serializeError r (Obj kvs) = msg"
    if "map_of kvs ''error'' = Some (Str msg)" "msg \<noteq> []" for kvs msg
    using that by (simp add: serializeError_def)
  have unparsed: "serializeError r Null = ?generic"
    by (simp add: serializeError_def)
  have other: "serializeError r v = ?generic"
    if "\<nexists>kvs msg. v = Obj kvs \<and> map_of kvs ''error'' = Some (Str msg) \<and> msg \<noteq> []" for v
    using that by (cases v) (auto simp: serializeError_def Let_def split: option.splits jsval.splits)
  show ?thesis
    using failed named unparsed other by (auto split: option.splits)
qed

theorem request_non_2xx_message_witness:
  "\<not> ok \<lparr>status = 401, json = Some (Obj [(''error'', Str ''bad creds'')])\<rparr>
   \<and> fst (request ''http://localhost:3000''
             (\<lambda>req. Inr \<lparr>status = 401, json = Some (Obj [(''error'', Str ''bad creds'')])\<rparr>)
             ''/login'' [] ''POST'' (Some (Obj [(''username'', Str ''alice'')])) [])
       = Inl (Error ''bad creds'')"
  using request_non_2xx_message
    [of "\<lambda>req. Inr \<lparr>status = 401, json = Some (Obj [(''error'', Str ''bad creds'')])\<rparr>"
        "''http://localhost:3000''" "''/login''" "[]" "''POST''"
        "Some (Obj [(''username'', Str ''alice'')])" "[]"
        "\<lparr>status = 401, json = Some (Obj [(''error'', Str ''bad creds'')])\<rparr>"]
  by (simp add: ok_def)

text \<open>
  The claim as first written takes the message from any string \<^verbatim>\<open>error\<close>
  field. The guard \<^verbatim>\<open>message.length > 0\<close> of \<^verbatim>\<open>serializeError\<close> excludes
  the empty string: a 400 with body \<^verbatim>\<open>{"error": ""}\<close> gives the generic message.
\<close>

theorem request_empty_error_field_counterexample:
  "fst (request ''http://localhost:3000''
          (\<lambda>req. Inr \<lparr>status = 400, json = Some (Obj [(''error'', Str [])])\<rparr>)
          ''/login'' [] ''POST'' (Some (Obj [(''username'', Str ''alice'')])) [])
     = Inl (Error ''Request failed with status 400'')
   \<and> own_property (Obj [(''error'', Str [])]) ''error'' = Str []"
  by (simp add: request_unfold ok_def serializeError_def show_nat.simps digit_char_def)

text \<open>
  C8. For a response whose body is no JSON, \<^verbatim>\<open>request\<close> returns
  \<^verbatim>\<open>null\<close> when the status is 2xx. Whether \<^verbatim>\<open>request\<close> fails depends
  on the status alone: it fails exactly when the status is outside 200..299, whatever
  \<^verbatim>\<open>response.json()\<close> did.
\<close>

theorem request_status_alone_decides:
  assumes "fetch (sent base path qs m b hs) = Inr r"
  shows "(ok r \<and> json r = None \<longrightarrow> fst (request base fetch path qs m b hs) = Inr Null)
       \<and> (ok r \<longrightarrow> (\<exists>v. fst (request base fetch path qs m b hs) = Inr v))
       \<and> (\<not> ok r \<longrightarrow> (\<exists>msg. fst (request base fetch path qs m b hs) = Inl (Error msg)))
       \<and> isl (fst (request base fetch path qs m b hs)) = (\<not> (200 \<le> status r \<and> status r \<le> 299))"
  using assms by (simp add: request_unfold ok_def)

theorem request_status_alone_decides_witness:
  "fst (request ''http://localhost:3000'' (\<lambda>req. Inr \<lparr>status = 200, json = None\<rparr>)
          ''/get-user-tasks'' [(''username'', ''alice'')] ''GET'' None []) = Inr Null
   \<and> isl (fst (request ''http://localhost:3000'' (\<lambda>req. Inr \<lparr>status = 200, json = None\<rparr>)
          ''/get-user-tasks'' [(''username'', ''alice'')] ''GET'' None [])) = False"
  using request_status_alone_decides
    [of "\<lambda>req. Inr \<lparr>status = 200, json = None\<rparr>" "''http://localhost:3000''"
        "''/get-user-tasks''" "[(''username'', ''alice'')]" "''GET''" None "[]"
        "\<lparr>status = 200, json = None\<rparr>"]
  by (simp add: ok_def)

section \<open>Properties of the domain gateway\<close>

lemma completedTasks_filter:
  "list_all (\<lambda>t. t \<noteq> Null \<and> t \<noteq> Undefined) ts \<Longrightarrow>
   completedTasks ts = Inr (filter (\<lambda>t. own_property t ''status'' = Str ''completed'') ts)"
  by (induction ts) (auto simp: get_prop_def nullish_def)

lemma finished_of_listed:
  assumes "listed resolved ts"
  shows "finished_of resolved
     = Inr (Obj [(''success'', Bool True),
                 (''tasks'', Arr (filter (\<lambda>t. own_property t ''status'' = Str ''completed'') ts))])"
proof -
  from assms obtain kvs where obj: "resolved = Obj kvs"
    by (cases resolved) (auto simp: listed_def)
  show ?thesis
  proof (cases "map_of kvs ''tasks''")
    case None
    with assms obj show ?thesis
      by (simp add: listed_def finished_of_def get_prop_def nullish_def js_coalesce_def)
  next
    case (Some v)
    show ?thesis
    proof (cases "v = Null")
      case True
      with assms obj Some show ?thesis
        by (simp add: listed_def finished_of_def get_prop_def nullish_def js_coalesce_def)
    next
      case False
      with assms obj Some obtain xs where arr: "v = Arr xs" "ts = xs"
        and clean: "list_all (\<lambda>t. t \<noteq> Null \<and> t \<noteq> Undefined) xs"
        by (cases v) (auto simp: listed_def)
      from obj Some arr completedTasks_filter [OF clean] show ?thesis
        by (simp add: finished_of_def get_prop_def nullish_def js_coalesce_def)
    qed
  qed
qed

lemma getFinishedTasks_unfold:
  "getFinishedTasks base fetch u =
     (case fst (getUserTasks base fetch u) of
        Inl e \<Rightarrow> Inl e
      | Inr resolved \<Rightarrow> finished_of resolved,
      snd (getUserTasks base fetch u))"
  by (simp add: getFinishedTasks_def split: prod.splits sum.splits)

lemma getUserTasks_requests:
  "snd (getUserTasks base fetch u)
     = [sent base ''/get-user-tasks'' [(''username'', u)] ''GET'' None []]"
  by (simp add: getUserTasks_def get_def buildQueryString_def request_unfold split: sum.splits)

text \<open>
  C2. \<^verbatim>\<open>getFinishedTasks\<close> makes the one request of \<^verbatim>\<open>getUserTasks\<close> and
  no other; it rejects as \<^verbatim>\<open>getUserTasks\<close> rejects; and when
  \<^verbatim>\<open>getUserTasks\<close> resolves with a response object of its declared shape, it
  resolves with \<^verbatim>\<open>success: true\<close> and exactly the tasks of that response whose
  \<^verbatim>\<open>status\<close> is \<^verbatim>\<open>'completed'\<close>, in their order.
\<close>

theorem getFinishedTasks_filters_getUserTasks:
  "snd (getFinishedTasks base fetch u) = snd (getUserTasks base fetch u)
   \<and> snd (getFinishedTasks base fetch u)
       = [sent base ''/get-user-tasks'' [(''username'', u)] ''GET'' None []]
   \<and> (\<forall>e. fst (getUserTasks base fetch u) = Inl e \<longrightarrow> fst (getFinishedTasks base fetch u) = Inl e)
   \<and> (\<forall>resolved ts. fst (getUserTasks base fetch u) = Inr resolved \<and> listed resolved ts \<longrightarrow>
         fst (getFinishedTasks base fetch u)
           = Inr (Obj [(''success'', Bool True),
                       (''tasks'', Arr (filter (\<lambda>t. own_property t ''status'' = Str ''completed'') ts))]))"
  by (simp add: getFinishedTasks_unfold getUserTasks_requests finished_of_listed)

theorem getFinishedTasks_filters_getUserTasks_witness:
  "fst (getUserTasks ''http://localhost:3000''
          (\<lambda>req. Inr \<lparr>status = 200, json = Some (Obj [(''success'', Bool True), (''tasks'',
             Arr [Obj [(''_id'', Str ''t1''), (''status'', Str ''completed'')],
                  Obj [(''_id'', Str ''t2''), (''status'', Str ''pending'')],
                  Obj [(''_id'', Str ''t3''), (''status'', Str ''completed'')]])])\<rparr>)
          ''alice'')
     = Inr (Obj [(''success'', Bool True), (''tasks'',
             Arr [Obj [(''_id'', Str ''t1''), (''status'', Str ''completed'')],
                  Obj [(''_id'', Str ''t2''), (''status'', Str ''pending'')],
                  Obj [(''_id'', Str ''t3''), (''status'', Str ''completed'')]])])
   \<and> fst (getFinishedTasks ''http://localhost:3000''
          (\<lambda>req. Inr \<lparr>status = 200, json = Some (Obj [(''success'', Bool True), (''tasks'',
             Arr [Obj [(''_id'', Str ''t1''), (''status'', Str ''completed'')],
                  Obj [(''_id'', Str ''t2''), (''status'', Str ''pending'')],
                  Obj [(''_id'', Str ''t3''), (''status'', Str ''completed'')]])])\<rparr>)
          ''alice'')
     = Inr (Obj [(''success'', Bool True), (''tasks'',
             Arr [Obj [(''_id'', Str ''t1''), (''status'', Str ''completed'')],
                  Obj [(''_id'', Str ''t3''), (''status'', Str ''completed'')]])])"
proof -
  let ?ts = "[Obj [(''_id'', Str ''t1''), (''status'', Str ''completed'')],
              Obj [(''_id'', Str ''t2''), (''status'', Str ''pending'')],
              Obj [(''_id'', Str ''t3''), (''status'', Str ''completed'')]]"
  let ?resolved = "Obj [(''success'', Bool True), (''tasks'', Arr ?ts)]"
  let ?fetch = "\<lambda>req::http_request. (Inr \<lparr>status = 200, json = Some ?resolved\<rparr> :: exn + response)"
  have resolves: "fst (getUserTasks ''http://localhost:3000'' ?fetch ''alice'') = Inr ?resolved"
    by (simp add: getUserTasks_def get_def request_unfold ok_def)
  have shape: "listed ?resolved ?ts"
    by (simp add: listed_def)
  from getFinishedTasks_filters_getUserTasks [of "''http://localhost:3000''" ?fetch "''alice''"]
    resolves shape
  have "fst (getFinishedTasks ''http://localhost:3000'' ?fetch ''alice'')
      = Inr (Obj [(''success'', Bool True),
                  (''tasks'', Arr (filter (\<lambda>t. own_property t ''status'' = Str ''completed'') ?ts))])"
    by blast
  with resolves show ?thesis by simp
qed

text \<open>
  The claim as first written promises \<^verbatim>\<open>success: true\<close> whenever the fetch of
  \<^verbatim>\<open>getUserTasks\<close> succeeded. A 2xx response whose body is no JSON makes
  \<^verbatim>\<open>getUserTasks\<close> resolve with \<^verbatim>\<open>null\<close>, and destructuring it in
  \<^verbatim>\<open>getFinishedTasks\<close> throws.
\<close>

theorem getFinishedTasks_null_body_counterexample:
  "fst (getUserTasks ''http://localhost:3000'' (\<lambda>req. Inr \<lparr>status = 200, json = None\<rparr>) ''alice'')
     = Inr Null
   \<and> fst (getFinishedTasks ''http://localhost:3000'' (\<lambda>req. Inr \<lparr>status = 200, json = None\<rparr>) ''alice'')
     = Inl TypeError"
  by (simp add: getFinishedTasks_unfold getUserTasks_def get_def request_unfold ok_def
      finished_of_def get_prop_def nullish_def)

text \<open>
  C10. When \<^verbatim>\<open>getUserTasks\<close> resolves with a response object whose
  \<^verbatim>\<open>success\<close> is \<^verbatim>\<open>false\<close>, \<^verbatim>\<open>getFinishedTasks\<close> still resolves,
  with \<^verbatim>\<open>success: true\<close> and the completed tasks of that response (none when it
  lists none), and what it resolves with has no \<^verbatim>\<open>error\<close> property.
\<close>

theorem getFinishedTasks_hides_logical_failure:
  assumes "fst (getUserTasks base fetch u) = Inr resolved"
    and "own_property resolved ''success'' = Bool False"
    and "listed resolved ts"
  shows "\<exists>finished. fst (getFinishedTasks base fetch u) = Inr finished
           \<and> own_property finished ''success'' = Bool True
           \<and> own_property finished ''tasks''
               = Arr (filter (\<lambda>t. own_property t ''status'' = Str ''completed'') ts)
           \<and> own_property finished ''error'' = Undefined"
  using assms by (simp add: getFinishedTasks_unfold finished_of_listed)

theorem getFinishedTasks_hides_logical_failure_witness:
  "\<exists>finished.
      fst (getFinishedTasks ''http://localhost:3000''
             (\<lambda>req. Inr \<lparr>status = 200,
                            json = Some (Obj [(''success'', Bool False), (''error'', Str ''User not found'')])\<rparr>)
             ''alice'') = Inr finished
      \<and> own_property finished ''success'' = Bool True
      \<and> own_property finished ''tasks'' = Arr []
      \<and> own_property finished ''error'' = Undefined"
proof -
  let ?resolved = "Obj [(''success'', Bool False), (''error'', Str ''User not found'')]"
  let ?fetch = "\<lambda>req::http_request. (Inr \<lparr>status = 200, json = Some ?resolved\<rparr> :: exn + response)"
  have resolves: "fst (getUserTasks ''http://localhost:3000'' ?fetch ''alice'') = Inr ?resolved"
    by (simp add: getUserTasks_def get_def request_unfold ok_def)
  have failure: "own_property ?resolved ''success'' = Bool False"
    by simp
  have shape: "listed ?resolved []"
    by (simp add: listed_def)
  from getFinishedTasks_hides_logical_failure [OF resolves failure shape]
  show ?thesis by simp
qed

section \<open>Properties of the event list\<close>

lemma map_indexed_nth:
  "map_indexed f k xs = Inr ys \<Longrightarrow>
   length ys = length xs \<and> (\<forall>j < length xs. f (k + j) (xs ! j) = Inr (ys ! j))"
proof (induction xs arbitrary: k ys)
  case Nil
  then show ?case by simp
next
  case (Cons x xs)
  from Cons.prems obtain y zs where head: "f k x = Inr y"
    and tail: "map_indexed f (Suc k) xs = Inr zs" and ys: "ys = y # zs"
    by (auto split: sum.splits)
  from Cons.IH [OF tail] have len: "length zs = length xs"
    and rest: "\<And>j. j < length xs \<Longrightarrow> f (Suc k + j) (xs ! j) = Inr (zs ! j)"
    by auto
  show ?case
  proof (intro conjI allI impI)
    show "length ys = length (x # xs)" using ys len by simp
  next
    fix j assume "j < length (x # xs)"
    then show "f (k + j) ((x # xs) ! j) = Inr (ys ! j)"
      using head rest ys by (cases j) auto
  qed
qed

lemma embedded_event_string:
  "embedded_event i (Str s)
     = Inr \<lparr>d_id = Str s, d_name = Str (''Event '' @ show_nat (i + 1)), d_date = Undefined\<rparr>"
  by (simp add: embedded_event_def)

lemma embedded_event_object_id:
  "embedded_event i (Obj kvs) = Inr d \<Longrightarrow>
   d_id d = (if truthy (own_property (Obj kvs) ''_id'') then own_property (Obj kvs) ''_id''
             else if truthy (own_property (Obj kvs) ''id'') then own_property (Obj kvs) ''id''
             else Str (''event-'' @ show_nat i))"
  by (auto simp: embedded_event_def nullish_def js_or_def)

lemma fetched_event_b_id:
  "d_id (fetched_event_b i e)
     = (case er_uid e of
          Some u \<Rightarrow> if u \<noteq> [] then Str u
                    else (case er_id e of
                            Some v \<Rightarrow> if v \<noteq> [] then Str v else Str (''event-'' @ show_nat i)
                          | None \<Rightarrow> Str (''event-'' @ show_nat i))
        | None \<Rightarrow> (case er_id e of
                     Some v \<Rightarrow> if v \<noteq> [] then Str v else Str (''event-'' @ show_nat i)
                   | None \<Rightarrow> Str (''event-'' @ show_nat i)))"
  by (simp add: fetched_event_b_def of_optional_def js_or_def split: option.splits)

lemma userEvents_no_array:
  "\<nexists>xs. user_field user ''events'' = Arr xs \<Longrightarrow> userEvents user = []"
  by (cases "user_field user ''events''") (simp_all add: userEvents_def)

lemma eventEntries_no_array:
  "\<nexists>xs. user_field user ''events'' = Arr xs \<Longrightarrow> eventEntries stringify user = []"
  by (cases "user_field user ''events''") (simp_all add: eventEntries_def)

lemma events_embedded_entries:
  assumes "events_a [] embedded = Inr ds \<or> events_b [] embedded = Inr ds" and "j < length embedded"
  shows "length ds = length embedded" and "embedded_event j (embedded ! j) = Inr (ds ! j)"
proof -
  from assms(1) have "map_indexed embedded_event 0 embedded = Inr ds"
    by (auto simp: events_a_def events_b_def)
  from map_indexed_nth [OF this] assms(2)
  show "length ds = length embedded" and "embedded_event j (embedded ! j) = Inr (ds ! j)"
    by auto
qed

lemma events_b_fetched_entries:
  assumes "fetched \<noteq> []" and "j < length fetched"
  shows "\<exists>ds. events_b fetched embedded = Inr ds \<and> length ds = length fetched
           \<and> ds ! j = fetched_event_b j (fetched ! j)"
  using assms by (simp add: events_b_def nth_enumerate_eq)

text \<open>
  C9. When the \<^verbatim>\<open>events\<close> field of the user profile is absent or no array (the
  profile itself may be \<^verbatim>\<open>null\<close>), the list the home screens derive from it is
  empty and the derivation does not throw: \<^verbatim>\<open>userEvents\<close> is empty, the displayed
  list of both versions of the screen is the empty list when nothing was fetched, and
  \<^verbatim>\<open>eventEntries\<close> is empty.
\<close>

theorem no_event_array_no_events:
  assumes "\<nexists>xs. user_field user ''events'' = Arr xs"
  shows "userEvents user = []
       \<and> events_a [] (userEvents user) = Inr []
       \<and> events_b [] (userEvents user) = Inr []
       \<and> eventEntries stringify user = []"
  using userEvents_no_array [OF assms] eventEntries_no_array [OF assms]
  by (simp add: events_a_def events_b_def)

theorem no_event_array_no_events_witness:
  "(\<nexists>xs. user_field (Some [(''username'', Str ''alice''), (''events'', Str ''e1,e2'')]) ''events'' = Arr xs)
   \<and> (\<nexists>xs. user_field None ''events'' = Arr xs)
   \<and> events_b [] (userEvents (Some [(''username'', Str ''alice''), (''events'', Str ''e1,e2'')])) = Inr []
   \<and> events_a [] (userEvents None) = Inr []
   \<and> eventEntries (\<lambda>v. None) (Some [(''username'', Str ''alice''), (''events'', Str ''e1,e2'')]) = []"
proof -
  let ?user = "Some [(''username'', Str ''alice''), (''events'', Str ''e1,e2'')]"
  have no_array: "\<nexists>xs. user_field ?user ''events'' = Arr xs"
    by (simp add: user_field_def)
  have no_user: "\<nexists>xs. user_field None ''events'' = Arr xs"
    by (simp add: user_field_def)
  from no_event_array_no_events [OF no_array, of "\<lambda>v. None"]
    no_event_array_no_events [OF no_user, of "\<lambda>v. None"] no_array no_user
  show ?thesis by simp (simp add: events_a_def events_b_def)
qed






text \<open>
  C1. In the first version of the home screen the callback on a fetched record is
  \<^verbatim>\<open>id: e._id || e.id\<close> with no placeholder: a record that has neither
  \<^verbatim>\<open>_id\<close> nor \<^verbatim>\<open>id\<close> is displayed with the id \<^verbatim>\<open>undefined\<close>. The
  second version gives the same record the id \<^verbatim>\<open>event-0\<close>.
\<close>

theorem events_a_fetched_record_without_id:
  "events_a [\<lparr>er_uid = None, er_id = None, er_name = Some ''Launch'', er_coverImage = None,
              er_date = None, er_tasks = None\<rparr>] []
     = Inr [\<lparr>d_id = Undefined, d_name = Str ''Launch'', d_date = Undefined\<rparr>]
   \<and> events_b [\<lparr>er_uid = None, er_id = None, er_name = Some ''Launch'', er_coverImage = None,
              er_date = None, er_tasks = None\<rparr>] []
     = Inr [\<lparr>d_id = Str ''event-0'', d_name = Str ''Launch'', d_date = Undefined\<rparr>]"
  by (simp add: events_a_def events_b_def fetched_event_a_def fetched_event_b_def of_optional_def
      js_or_def show_nat.simps digit_char_def)

section \<open>Properties of the form handlers\<close>

lemma trim_blank: "trim ''  '' = []"
  by (simp add: trim_def is_ws_def)

lemma trim_inner: "trim '' call Bob  '' = ''call Bob''"
  by (simp add: trim_def is_ws_def)

lemma handleCreateConnection_rejected:
  assumes "user_name \<noteq> []" and "trim (connectionName a) \<noteq> []" and "trim (connectionNote a) \<noteq> []"
    and "trim (connectionName b) \<noteq> []" and "trim (connectionNote b) \<noteq> []"
  shows "fst (handleCreateConnection_a engine_message user_name (Inl e) a)
           = a\<lparr>formError := Some (catch_message engine_message ''Unable to add connection'' e),
                isSubmittingConnection := False\<rparr>"
    and "GetConnections user_name \<notin> set (snd (handleCreateConnection_a engine_message user_name (Inl e) a))"
    and "fst (handleCreateConnection_b engine_message user_name (Inl e) b)
           = b\<lparr>formError := Some (catch_message engine_message ''Unable to add connection'' e),
                isSubmittingConnection := False\<rparr>"
    and "GetConnections user_name \<notin> set (snd (handleCreateConnection_b engine_message user_name (Inl e) b))"
  using assms by (simp_all add: handleCreateConnection_a_def handleCreateConnection_b_def Let_def)

lemma handleCreateTask_failed:
  assumes "\<not> absent u" and "trim (taskInfo a) \<noteq> []" and "trim (taskInfo b) \<noteq> []"
    and "created = Inl e \<or> (\<exists>response. created = Inr (Some response) \<and> \<not> success response)"
  shows "modalVisible (fst (handleCreateTask_a engine_message now evs u created a)) = modalVisible a"
    and "createdTasks (fst (handleCreateTask_a engine_message now evs u created a)) = createdTasks a"
    and "formError (fst (handleCreateTask_a engine_message now evs u created a)) \<noteq> None"
    and "length (snd (handleCreateTask_a engine_message now evs u created a)) = 1"
    and "modalVisible (fst (handleCreateTask_b engine_message u created loaded b)) = modalVisible b"
    and "tasks (fst (handleCreateTask_b engine_message u created loaded b)) = tasks b"
    and "formError (fst (handleCreateTask_b engine_message u created loaded b)) \<noteq> None"
    and "length (snd (handleCreateTask_b engine_message u created loaded b)) = 1"
  using assms
  by (auto simp: handleCreateTask_a_def handleCreateTask_b_def absent_def Let_def
      split: option.splits)

text \<open>
  C7. In both versions of the home screen, submitting the task form with an
  \<^verbatim>\<open>info\<close> that is empty after trimming invokes no gateway operation. When a
  username is available the only change to the state is the form error
  \<^verbatim>\<open>Task info is required\<close>; when none is, the form error is
  \<^verbatim>\<open>User not available\<close>.
\<close>

theorem handleCreateTask_blank_info:
  assumes "trim (taskInfo a) = []" and "trim (taskInfo b) = []"
  shows "snd (handleCreateTask_a engine_message now evs u created a) = []
       \<and> snd (handleCreateTask_b engine_message u created loaded b) = []
       \<and> (\<not> absent u \<longrightarrow>
            fst (handleCreateTask_a engine_message now evs u created a)
              = a\<lparr>formError := Some ''Task info is required''\<rparr>
          \<and> fst (handleCreateTask_b engine_message u created loaded b)
              = b\<lparr>formError := Some ''Task info is required''\<rparr>)
       \<and> (absent u \<longrightarrow>
            fst (handleCreateTask_a engine_message now evs u created a)
              = a\<lparr>formError := Some ''User not available''\<rparr>
          \<and> fst (handleCreateTask_b engine_message u created loaded b)
              = b\<lparr>formError := Some ''User not available''\<rparr>)"
  using assms
  by (cases u) (simp_all add: handleCreateTask_a_def handleCreateTask_b_def absent_def)

theorem handleCreateTask_blank_info_witness:
  "trim (taskInfo \<lparr>modalVisible = True, formError = None, fetchedEvents = [], loadingEvents = False,
                   taskInfo = ''  '', taskType = Other, isSubmitting = False,
                   tasks = [], loadingTasks = False, finishedCount = 0\<rparr>) = []
   \<and> handleCreateTask_b ''Cannot read properties of null'' (Some ''alice'')
        (Inr (Some \<lparr>success = True, payload = None, error = None\<rparr>))
        (Inl (Error ''offline''))
        \<lparr>modalVisible = True, formError = None, fetchedEvents = [], loadingEvents = False,
         taskInfo = ''  '', taskType = Other, isSubmitting = False,
         tasks = [], loadingTasks = False, finishedCount = 0\<rparr>
     = (\<lparr>modalVisible = True, formError = Some ''Task info is required'', fetchedEvents = [],
         loadingEvents = False, taskInfo = ''  '', taskType = Other, isSubmitting = False,
         tasks = [], loadingTasks = False, finishedCount = 0\<rparr>, [])"
proof -
  let ?a = "\<lparr>modalVisible = True, formError = None, fetchedEvents = [], loadingEvents = False,
             taskInfo = ''  '', taskType = Other, isSubmitting = False,
             createdTasks = [], selectedEventId = None, isDropdownOpen = False\<rparr>"
  let ?b = "\<lparr>modalVisible = True, formError = None, fetchedEvents = [], loadingEvents = False,
             taskInfo = ''  '', taskType = Other, isSubmitting = False,
             tasks = [], loadingTasks = False, finishedCount = 0\<rparr>"
  have blank_a: "trim (taskInfo ?a) = []" by (simp add: trim_blank)
  have blank_b: "trim (taskInfo ?b) = []" by (simp add: trim_blank)
  have named: "\<not> absent (Some ''alice'')" by (simp add: absent_def)
  from handleCreateTask_blank_info [OF blank_a blank_b,
      where u = "Some ''alice''" and engine_message = "''Cannot read properties of null''"
        and created = "Inr (Some \<lparr>success = True, payload = None, error = None\<rparr>)"
        and loaded = "Inl (Error ''offline'')" and now = 0 and evs = "[]"] named
  have "snd (handleCreateTask_b ''Cannot read properties of null'' (Some ''alice'')
               (Inr (Some \<lparr>success = True, payload = None, error = None\<rparr>))
               (Inl (Error ''offline'')) ?b) = []"
    and "fst (handleCreateTask_b ''Cannot read properties of null'' (Some ''alice'')
               (Inr (Some \<lparr>success = True, payload = None, error = None\<rparr>))
               (Inl (Error ''offline'')) ?b) = ?b\<lparr>formError := Some ''Task info is required''\<rparr>"
    by blast+
  then show ?thesis
    using blank_b by (simp add: prod_eq_iff)
qed

text \<open>
  The claim as first written gives the message \<^verbatim>\<open>Task info is required\<close> for
  every submission with a blank \<^verbatim>\<open>info\<close>. The handler checks the username
  first: with no username the same submission is rejected with
  \<^verbatim>\<open>User not available\<close>.
\<close>

theorem handleCreateTask_no_user_counterexample:
  "handleCreateTask_b ''Cannot read properties of null'' None
        (Inr (Some \<lparr>success = True, payload = None, error = None\<rparr>))
        (Inl (Error ''offline''))
        \<lparr>modalVisible = True, formError = None, fetchedEvents = [], loadingEvents = False,
         taskInfo = ''  '', taskType = Other, isSubmitting = False,
         tasks = [], loadingTasks = False, finishedCount = 0\<rparr>
     = (\<lparr>modalVisible = True, formError = Some ''User not available'', fetchedEvents = [],
         loadingEvents = False, taskInfo = ''  '', taskType = Other, isSubmitting = False,
         tasks = [], loadingTasks = False, finishedCount = 0\<rparr>, [])"
  by (simp add: handleCreateTask_b_def)

text \<open>
  C5. \<^verbatim>\<open>handleCreateConnection\<close> awaits \<^verbatim>\<open>addConnection\<close> and does not
  look at what it resolved with. With the form filled in and the server answering
  \<^verbatim>\<open>{ success: false, error: "Connection already exists" }\<close>, both versions of the
  people screen close the modal, clear the form, show no form error and start
  \<^verbatim>\<open>getConnections\<close> again.
\<close>

theorem handleCreateConnection_unchecked_response:
  "handleCreateConnection_a engine_message ''alice''
      (Inr (Some \<lparr>success = False, payload = None, error = Some ''Connection already exists''\<rparr>))
      \<lparr>modalVisible = True, formError = None, connections = [], loading = False, loadError = None,
       connectionName = ''Bob'', connectionNote = ''met at expo'', isSubmittingConnection = False,
       connectionEmail = [], connectionPhone = []\<rparr>
     = (\<lparr>modalVisible = False, formError = None, connections = [], loading = True, loadError = None,
         connectionName = [], connectionNote = [], isSubmittingConnection = False,
         connectionEmail = [], connectionPhone = []\<rparr>,
        [AddConnection ''alice'' ''Bob'' ''met at expo'' None None, GetConnections ''alice''])
   \<and> handleCreateConnection_b engine_message ''alice''
      (Inr (Some \<lparr>success = False, payload = None, error = Some ''Connection already exists''\<rparr>))
      \<lparr>modalVisible = True, formError = None, connections = [], loading = False, loadError = None,
       connectionName = ''Bob'', connectionNote = ''met at expo'', isSubmittingConnection = False\<rparr>
     = (\<lparr>modalVisible = False, formError = None, connections = [], loading = True, loadError = None,
         connectionName = [], connectionNote = [], isSubmittingConnection = False\<rparr>,
        [AddConnection ''alice'' ''Bob'' ''met at expo'' None None, GetConnections ''alice''])"
  by (simp add: handleCreateConnection_a_def handleCreateConnection_b_def trim_def is_ws_def
      handleDismissModal_a_def handleDismissModal_b_def loadConnections_started_def)

section \<open>Properties of the effects\<close>

lemma getEvents_settled_cancelled: "getEvents_settled True outcome st = st"
  by (simp add: getEvents_settled_def)

lemma stale_getEvents_ignored:
  "r \<in> set (cancelled_runs s) \<Longrightarrow> cells (step_b s (GetEventsSettles r outcome)) = cells s"
  by (simp add: getEvents_settled_cancelled)

lemma username_change_cancels_run:
  "cleanup s = Some r \<Longrightarrow> u \<noteq> username s \<Longrightarrow>
   r \<in> set (cancelled_runs (step_b s (UsernameBecomes u)))"
  by (auto simp: events_effect_def tasks_effect_def Let_def split: option.splits)

lemma events_tracked_step: "events_tracked s \<Longrightarrow> events_tracked (step_b s ev)"
proof (cases ev)
  case (UsernameBecomes u)
  assume tracked: "events_tracked s"
  show ?thesis
  proof (cases "u = username s")
    case True
    with UsernameBecomes tracked show ?thesis by simp
  next
    case False
    with UsernameBecomes tracked show ?thesis
      by (auto simp: events_tracked_def events_effect_def tasks_effect_def loadTasks_started_def
          Let_def list_all_iff split: option.splits)
  qed
next
  case (GetEventsSettles r outcome)
  assume "events_tracked s"
  with GetEventsSettles show ?thesis
    by (auto simp: events_tracked_def list_all_iff)
next
  case (LoadTasksSettles k outcome)
  assume "events_tracked s"
  with LoadTasksSettles show ?thesis
    by (auto simp: events_tracked_def list_all_iff)
qed

lemma events_tracked_run: "events_tracked (run_b mounted_b evs)"
proof (induction evs rule: rev_induct)
  case Nil
  show ?case by (simp add: run_b_def mounted_b_def events_tracked_def)
next
  case (snoc ev evs)
  then show ?case by (simp add: run_b_def events_tracked_step)
qed

lemma applied_events_are_current:
  assumes "s = run_b mounted_b evs" and "(r, name) \<in> set (events_in_flight s)"
    and "cells (step_b s (GetEventsSettles r outcome)) \<noteq> cells s"
  shows "username s = Some name"
proof -
  have "events_tracked s" using assms(1) events_tracked_run by simp
  with assms(2) have "r \<in> set (cancelled_runs s) \<or> (cleanup s = Some r \<and> username s = Some name)"
    by (auto simp: events_tracked_def list_all_iff)
  moreover have "r \<notin> set (cancelled_runs s)"
    using assms(3) stale_getEvents_ignored by blast
  ultimately show ?thesis by simp
qed

text \<open>
  C4. The second home screen, mounted with no user: the username becomes
  \<^verbatim>\<open>alice\<close> and then \<^verbatim>\<open>bob\<close> while alice's requests are in flight; bob's
  requests settle first, alice's after. The events effect has a cancellation flag and
  alice's events are dropped. \<^verbatim>\<open>loadTasks\<close> has none: alice's tasks and her
  count of finished tasks overwrite bob's, and the screen of \<^verbatim>\<open>bob\<close> ends
  showing them.
\<close>

theorem loadTasks_applies_stale_response:
  "username (run_b mounted_b
      [UsernameBecomes (Some ''alice''),
       UsernameBecomes (Some ''bob''),
       GetEventsSettles 1 (Inr (Some \<lparr>success = True,
          payload = Some [\<lparr>er_uid = Some ''eb'', er_id = None, er_name = Some ''Bob event'',
                           er_coverImage = None, er_date = None, er_tasks = None\<rparr>], error = None\<rparr>)),
       LoadTasksSettles 1 (Inr (Some \<lparr>success = True,
          payload = Some [\<lparr>tr_uid = Some ''tb'', tr_id = None, tr_info = Some ''Bob task'',
                           tr_type = None, tr_status = Some ''pending'', tr_dateTime = None,
                           tr_eventId = None\<rparr>], error = None\<rparr>,
          \<lparr>success = True, payload = Some [], error = None\<rparr>)),
       GetEventsSettles 0 (Inr (Some \<lparr>success = True,
          payload = Some [\<lparr>er_uid = Some ''ea'', er_id = None, er_name = Some ''Alice event'',
                           er_coverImage = None, er_date = None, er_tasks = None\<rparr>], error = None\<rparr>)),
       LoadTasksSettles 0 (Inr (Some \<lparr>success = True,
          payload = Some [\<lparr>tr_uid = Some ''ta'', tr_id = None, tr_info = Some ''Alice task'',
                           tr_type = None, tr_status = Some ''completed'', tr_dateTime = None,
                           tr_eventId = None\<rparr>], error = None\<rparr>,
          \<lparr>success = True,
           payload = Some [\<lparr>tr_uid = Some ''ta'', tr_id = None, tr_info = Some ''Alice task'',
                            tr_type = None, tr_status = Some ''completed'', tr_dateTime = None,
                            tr_eventId = None\<rparr>], error = None\<rparr>))])
     = Some ''bob''
   \<and> cells (run_b mounted_b
      [UsernameBecomes (Some ''alice''),
       UsernameBecomes (Some ''bob''),
       GetEventsSettles 1 (Inr (Some \<lparr>success = True,
          payload = Some [\<lparr>er_uid = Some ''eb'', er_id = None, er_name = Some ''Bob event'',
                           er_coverImage = None, er_date = None, er_tasks = None\<rparr>], error = None\<rparr>)),
       LoadTasksSettles 1 (Inr (Some \<lparr>success = True,
          payload = Some [\<lparr>tr_uid = Some ''tb'', tr_id = None, tr_info = Some ''Bob task'',
                           tr_type = None, tr_status = Some ''pending'', tr_dateTime = None,
                           tr_eventId = None\<rparr>], error = None\<rparr>,
          \<lparr>success = True, payload = Some [], error = None\<rparr>)),
       GetEventsSettles 0 (Inr (Some \<lparr>success = True,
          payload = Some [\<lparr>er_uid = Some ''ea'', er_id = None, er_name = Some ''Alice event'',
                           er_coverImage = None, er_date = None, er_tasks = None\<rparr>], error = None\<rparr>)),
       LoadTasksSettles 0 (Inr (Some \<lparr>success = True,
          payload = Some [\<lparr>tr_uid = Some ''ta'', tr_id = None, tr_info = Some ''Alice task'',
                           tr_type = None, tr_status = Some ''completed'', tr_dateTime = None,
                           tr_eventId = None\<rparr>], error = None\<rparr>,
          \<lparr>success = True,
           payload = Some [\<lparr>tr_uid = Some ''ta'', tr_id = None, tr_info = Some ''Alice task'',
                            tr_type = None, tr_status = Some ''completed'', tr_dateTime = None,
                            tr_eventId = None\<rparr>], error = None\<rparr>))])
     = \<lparr>modalVisible = False, formError = None,
        fetchedEvents = [\<lparr>er_uid = Some ''eb'', er_id = None, er_name = Some ''Bob event'',
                          er_coverImage = None, er_date = None, er_tasks = None\<rparr>],
        loadingEvents = False, taskInfo = [], taskType = Connect, isSubmitting = False,
        tasks = [\<lparr>tr_uid = Some ''ta'', tr_id = None, tr_info = Some ''Alice task'',
                  tr_type = None, tr_status = Some ''completed'', tr_dateTime = None,
                  tr_eventId = None\<rparr>],
        loadingTasks = False, finishedCount = 1\<rparr>"
  by (simp add: run_b_def mounted_b_def events_effect_def tasks_effect_def loadTasks_started_def
      loadTasks_settled_def getEvents_settled_def)

end
